theory Spec2Isabelle
  imports Complex_Main "HOL-Library.AList"
begin

section \<open>Python values, exceptions and the observable world\<close>

text \<open>
  The scripts are sequential Python. Every exception the modelled code can meet is a
  value of \<open>py_exc\<close>; a function that may raise returns \<open>py_exc + 'a\<close> with \<open>Inl\<close> for
  the exception. \<open>KeyboardInterrupt\<close> derives from \<open>BaseException\<close> only, so the
  handler \<^verbatim>\<open>except Exception\<close> does not catch it; the others derive from
  \<open>Exception\<close>.
\<close>

datatype py_exc =
    OverflowError
  | ValueError
  | AttributeError
  | KeyboardInterrupt
  | Exception string

definition is_Exception :: "py_exc \<Rightarrow> bool" where
  "is_Exception e = (e \<noteq> KeyboardInterrupt)"

text \<open>
  Wall-clock readings (\<^verbatim>\<open>time.time()\<close>) and sleep durations are rationals, in
  seconds. The world a client acts on is its clock and the trace of what it did:
  blocking waits and HTTP requests, in order. A sleep advances the clock by its
  duration; the time an HTTP exchange takes is not modelled.
\<close>

datatype io_event = Sleep rat | Request

record world =
  clock :: rat
  trace :: "io_event list"

definition sleep :: "rat \<Rightarrow> 'a world_scheme \<Rightarrow> 'a world_scheme" where
  "sleep d w = w\<lparr>clock := clock w + d, trace := trace w @ [Sleep d]\<rparr>"

definition urlopen :: "'a world_scheme \<Rightarrow> 'a world_scheme" where
  "urlopen w = w\<lparr>trace := trace w @ [Request]\<rparr>"

text \<open>
  A response header that the code passes to \<^verbatim>\<open>int(...)\<close>: absent, the decimal
  text of an integer, or text that \<^verbatim>\<open>int\<close> rejects with \<open>ValueError\<close>.
\<close>

datatype hdr = Absent | Num int | Garbled

definition hdr_int :: "hdr \<Rightarrow> int \<Rightarrow> py_exc + int" where
  "hdr_int h dflt = (case h of Absent \<Rightarrow> Inr dflt | Num n \<Rightarrow> Inr n | Garbled \<Rightarrow> Inl ValueError)"

section \<open>GitHubAPI (scripts/08\_temporal\_extraction.py)\<close>

text \<open>
  What \<^verbatim>\<open>urllib.request.urlopen\<close> does on one attempt: a response with its
  \<^verbatim>\<open>X-RateLimit-Remaining\<close> and \<^verbatim>\<open>X-RateLimit-Reset\<close> headers and its body
  (\<open>None\<close> when reading or decoding the body raises), an \<open>HTTPError\<close> with its status
  code and its \<^verbatim>\<open>X-RateLimit-Reset\<close> header, or any other exception of the transport.
\<close>

datatype 'a response =
    Success hdr hdr "'a option"
  | HTTPError int hdr
  | URLError

record GitHubAPI = world +
  remaining :: int
  reset_time :: int
  request_count :: nat

definition REQUEST_DELAY :: rat where
  "REQUEST_DELAY = 4 / 5"

definition new_GitHubAPI :: "rat \<Rightarrow> GitHubAPI" where
  "new_GitHubAPI now =
     \<lparr>clock = now, trace = [], remaining = 5000, reset_time = 0, request_count = 0\<rparr>"

definition check_rate_limit :: "GitHubAPI \<Rightarrow> GitHubAPI" where
  "check_rate_limit st =
     (if remaining st < 50
      then sleep (max 0 (of_int (reset_time st) - clock st) + 5) st
      else st)"

text \<open>
  The body of \<^verbatim>\<open>with urlopen(...) as resp\<close>: the three fields are assigned one
  after the other, so an exception in the middle leaves the earlier assignments in
  place. \<open>Inl\<close> is the state at the moment the generic handler takes over.
\<close>

definition read_response :: "hdr \<Rightarrow> hdr \<Rightarrow> 'a option \<Rightarrow> GitHubAPI \<Rightarrow> GitHubAPI + ('a \<times> GitHubAPI)" where
  "read_response h_rem h_reset body st =
     (case hdr_int h_rem 5000 of
        Inl _ \<Rightarrow> Inl st
      | Inr r \<Rightarrow>
          (let st1 = st\<lparr>remaining := r\<rparr> in
           case hdr_int h_reset 0 of
             Inl _ \<Rightarrow> Inl st1
           | Inr t \<Rightarrow>
               (let st2 = st1\<lparr>reset_time := t, request_count := request_count st1 + 1\<rparr> in
                case body of
                  None \<Rightarrow> Inl st2
                | Some d \<Rightarrow> Inr (d, sleep REQUEST_DELAY st2))))"

text \<open>
  The loop \<^verbatim>\<open>for attempt in range(3)\<close>, over the attempts still to run. The
  oracle \<open>rs\<close> gives the outcome of each attempt. A \<open>ValueError\<close> raised by
  \<^verbatim>\<open>int(...)\<close> inside the \<open>HTTPError\<close> handler is not caught by the sibling handler
  and leaves \<open>get\<close>.
\<close>

fun get_loop :: "(nat \<Rightarrow> 'a response) \<Rightarrow> nat list \<Rightarrow> GitHubAPI \<Rightarrow> (py_exc + 'a option) \<times> GitHubAPI" where
  "get_loop rs [] st = (Inr None, st)"
| "get_loop rs (attempt # rest) st =
     (let st0 = urlopen st;
          other = (\<lambda>s. if attempt < 2
                        then get_loop rs rest (sleep (5 * (of_nat attempt + 1)) s)
                        else (Inr None, s))
      in case rs attempt of
           Success h_rem h_reset body \<Rightarrow>
             (case read_response h_rem h_reset body st0 of
                Inr (d, st1) \<Rightarrow> (Inr (Some d), st1)
              | Inl st1 \<Rightarrow> other st1)
         | HTTPError code h_reset \<Rightarrow>
             (if code = 403 then
                (case hdr_int h_reset 0 of
                   Inl e \<Rightarrow> (Inl e, st0)
                 | Inr reset \<Rightarrow>
                     get_loop rs rest (sleep (max 0 (of_int reset - clock st0) + 5) st0))
              else if code = 404 then (Inr None, st0)
              else if code = 422 then (Inr None, st0)
              else other st0)
         | URLError \<Rightarrow> other st0)"

definition get :: "(nat \<Rightarrow> 'a response) \<Rightarrow> GitHubAPI \<Rightarrow> (py_exc + 'a option) \<times> GitHubAPI" where
  "get rs st = get_loop rs [0, 1, 2] (check_rate_limit st)"

section \<open>runGraphqlRequest (tools/csDetector-fixed/graphqlAnalysis/graphqlAnalysisHelper.py)\<close>

text \<open>
  The JSON body of a reply with status 200: it has the key \<^verbatim>\<open>data\<close>, or else the
  key \<^verbatim>\<open>errors\<close>, or neither. One attempt either raises
  \<^verbatim>\<open>requests.exceptions.RequestException\<close> or yields a reply with a status code,
  its \<^verbatim>\<open>X-RateLimit-Reset\<close> header (\<open>Absent\<close> also when the header is empty text,
  which Python treats as false) and its body.
\<close>

datatype 'a gql_body = Data 'a | Errors | Neither

datatype 'a gql_response =
    RequestException
  | Reply int hdr "'a gql_body"

definition retry_wait :: "nat \<Rightarrow> int \<Rightarrow> hdr \<Rightarrow> rat \<Rightarrow> py_exc + rat" where
  "retry_wait attempt code h_reset now =
     (let wait_time = 2 ^ (attempt + 2) in
      if code = 403 \<or> code = 429 then
        (case h_reset of
           Absent \<Rightarrow> Inr wait_time
         | Num r \<Rightarrow> Inr (min (max (of_int (r - \<lfloor>now\<rfloor>)) 10) 300)
         | Garbled \<Rightarrow> Inl ValueError)
      else Inr wait_time)"

text \<open>
  The loop \<^verbatim>\<open>for attempt in range(max_retries)\<close>. \<open>jitter attempt\<close> is what
  \<^verbatim>\<open>random.randint(1, 4)\<close> draws on that attempt.
\<close>

fun gql_loop :: "(nat \<Rightarrow> 'a gql_response) \<Rightarrow> (nat \<Rightarrow> int) \<Rightarrow> nat list \<Rightarrow> world \<Rightarrow> (py_exc + 'a) \<times> world" where
  "gql_loop rs jitter [] w = (Inl (Exception ''Query failed after retries''), w)"
| "gql_loop rs jitter (attempt # rest) w =
     (let w0 = urlopen (sleep (of_int (jitter attempt)) w) in
      case rs attempt of
        RequestException \<Rightarrow> gql_loop rs jitter rest (sleep (2 ^ attempt) w0)
      | Reply code h_reset body \<Rightarrow>
          (let by_status =
                 (if code = 403 \<or> code = 429 \<or> code = 502 \<or> code = 503 then
                    (case retry_wait attempt code h_reset (clock w0) of
                       Inl e \<Rightarrow> (Inl e, w0)
                     | Inr wait_time \<Rightarrow> gql_loop rs jitter rest (sleep wait_time w0))
                  else (Inl (Exception ''Query execution failed''), w0))
           in if code = 200 then
                (case body of
                   Data d \<Rightarrow> (Inr d, w0)
                 | Errors \<Rightarrow> gql_loop rs jitter rest (sleep (2 ^ attempt) w0)
                 | Neither \<Rightarrow> by_status)
              else by_status))"

definition runGraphqlRequest :: "(nat \<Rightarrow> 'a gql_response) \<Rightarrow> (nat \<Rightarrow> int) \<Rightarrow> int \<Rightarrow> world \<Rightarrow> (py_exc + 'a) \<times> world" where
  "runGraphqlRequest rs jitter max_retries w = gql_loop rs jitter [0..<nat max_retries] w"

section \<open>Dates (Python's \<^verbatim>\<open>datetime\<close>)\<close>

text \<open>
  A naive \<^verbatim>\<open>datetime\<close> is the number of microseconds since 0001-01-01T00:00:00.
  Python keeps it within the years 1 to 9999: \<^verbatim>\<open>timedelta(days=k)\<close> raises
  \<open>OverflowError\<close> when \<open>k\<close> exceeds 999999999 in magnitude, and adding a
  \<^verbatim>\<open>timedelta\<close> raises \<open>OverflowError\<close> when the sum leaves the range.
\<close>

type_synonym datetime = int

definition us_per_day :: int where
  "us_per_day = 86400000000"

definition datetime_max :: datetime where
  "datetime_max = 3652059 * us_per_day - 1"

definition timedelta_days :: "int \<Rightarrow> py_exc + int" where
  "timedelta_days k = (if \<bar>k\<bar> > 999999999 then Inl OverflowError else Inr (k * us_per_day))"

definition add_timedelta :: "datetime \<Rightarrow> int \<Rightarrow> py_exc + datetime" where
  "add_timedelta dt delta =
     (if 0 \<le> dt + delta \<and> dt + delta \<le> datetime_max then Inr (dt + delta) else Inl OverflowError)"

text \<open>
  The proleptic Gregorian calendar, as CPython's \<^verbatim>\<open>datetime\<close> module computes
  it: the ordinal of a day (0001-01-01 is day 1) from year, month and day, and back.
\<close>

definition DAYS_IN_MONTH :: "int list" where
  "DAYS_IN_MONTH = [31, 28, 31, 30, 31, 30, 31, 31, 30, 31, 30, 31]"

definition is_leap :: "int \<Rightarrow> bool" where
  "is_leap y = (y mod 4 = 0 \<and> (0 < y mod 100 \<or> y mod 400 = 0))"

definition days_before_year :: "int \<Rightarrow> int" where
  "days_before_year y = (y - 1) * 365 + (y - 1) div 4 - (y - 1) div 100 + (y - 1) div 400"

definition days_in_month :: "int \<Rightarrow> int \<Rightarrow> int" where
  "days_in_month y m = (if m = 2 \<and> is_leap y then 29 else DAYS_IN_MONTH ! nat (m - 1))"

definition days_before_month :: "int \<Rightarrow> int \<Rightarrow> int" where
  "days_before_month y m =
     sum_list (take (nat (m - 1)) DAYS_IN_MONTH) + (if m > 2 \<and> is_leap y then 1 else 0)"

definition ymd2ord :: "int \<Rightarrow> int \<Rightarrow> int \<Rightarrow> int" where
  "ymd2ord y m d = days_before_year y + days_before_month y m + d"

definition ord2ymd :: "int \<Rightarrow> int \<times> int \<times> int" where
  "ord2ymd ordinal =
     (let n = ordinal - 1;
          n400 = n div 146097; n = n mod 146097;
          n100 = n div 36524; n = n mod 36524;
          n4 = n div 1461; n = n mod 1461;
          n1 = n div 365; n = n mod 365;
          year = n400 * 400 + 1 + n100 * 100 + n4 * 4 + n1
      in if n1 = 4 \<or> n100 = 4 then (year - 1, 12, 31)
         else
           (let month = (n + 50) div 32;
                preceding = days_before_month year month
            in if preceding > n
               then (year, month - 1, n - (preceding - days_in_month year (month - 1)) + 1)
               else (year, month, n - preceding + 1)))"

text \<open>A datetime from its calendar date and the second of the day.\<close>

definition mk_datetime :: "int \<Rightarrow> int \<Rightarrow> int \<Rightarrow> int \<Rightarrow> datetime" where
  "mk_datetime y m d secs = ((ymd2ord y m d - 1) * 86400 + secs) * 1000000"

definition digit :: "int \<Rightarrow> char" where
  "digit n = ''0123456789'' ! nat (n mod 10)"

text \<open>\<^verbatim>\<open>strftime("%Y-%m-%d")\<close>, for the years 1000 to 9999.\<close>

definition strftime_ymd :: "datetime \<Rightarrow> string" where
  "strftime_ymd dt =
     (case ord2ymd (dt div us_per_day + 1) of
        (y, m, d) \<Rightarrow>
          [digit (y div 1000), digit (y div 100), digit (y div 10), digit y, CHR ''-'',
           digit (m div 10), digit m, CHR ''-'', digit (d div 10), digit d])"

section \<open>Dictionaries\<close>

text \<open>
  A Python \<^verbatim>\<open>dict\<close> is an association list in insertion order; assigning to a
  key that is present keeps its place (\<open>AList.update\<close>). \<open>update_all d other\<close> is
  \<^verbatim>\<open>d.update(other)\<close>.
\<close>

datatype pyval = PyStr string | PyInt int | PyFloat rat | PyNone

type_synonym row = "(string \<times> pyval) list"

definition update_all :: "('k \<times> 'v) list \<Rightarrow> ('k \<times> 'v) list \<Rightarrow> ('k \<times> 'v) list" where
  "update_all d other = fold (\<lambda>kv. AList.update (fst kv) (snd kv)) other d"

definition keys :: "('k \<times> 'v) list \<Rightarrow> 'k set" where
  "keys d = fst ` set d"

section \<open>The Designite result parsers\<close>

text \<open>
  One row of a result file, as \<^verbatim>\<open>csv.DictReader\<close> hands it over, seen through
  the column the parser reads (\<^verbatim>\<open>Design Smell\<close> or \<^verbatim>\<open>Implementation Smell\<close>):
  the text of the cell; \<open>None\<close> when the row is shorter than the header, so that the
  reader fills the key with \<open>None\<close>; or no such key, when the header lacks the column.
\<close>

datatype cell = Cell string | Empty_cell | No_column

definition smell_type :: "cell \<Rightarrow> string option" where
  "smell_type c = (case c of Cell s \<Rightarrow> Some s | Empty_cell \<Rightarrow> None | No_column \<Rightarrow> Some ''Unknown'')"

text \<open>\<^verbatim>\<open>k.replace(" ", "_")\<close>\<close>

definition safe_key :: "string \<Rightarrow> string" where
  "safe_key k = map (\<lambda>c. if c = CHR '' '' then CHR ''_'' else c) k"

text \<open>\<^verbatim>\<open>counts[k] = counts.get(k, 0) + 1\<close>, and the loop over the rows.\<close>

definition bump :: "('k \<times> int) list \<Rightarrow> 'k \<Rightarrow> ('k \<times> int) list" where
  "bump counts k = AList.update k ((case map_of counts k of None \<Rightarrow> 0 | Some c \<Rightarrow> c) + 1) counts"

definition count_rows :: "'k list \<Rightarrow> ('k \<times> int) list" where
  "count_rows ks = foldl bump [] ks"

text \<open>
  \<open>DesigniteRunner._parse_results\<close> (scripts/08\_temporal\_extraction.py). The
  total is stored first, then one key per counted name. A name that is \<open>None\<close> makes
  \<^verbatim>\<open>k.replace\<close> raise \<open>AttributeError\<close>, which the surrounding handler swallows:
  the keys stored so far stay, the others are never stored.
\<close>

fun store_counts :: "string \<Rightarrow> (string option \<times> int) list \<Rightarrow> (string \<times> int) list \<Rightarrow> (string \<times> int) list" where
  "store_counts prefix [] smells = smells"
| "store_counts prefix ((k, v) # kvs) smells =
     (case k of
        None \<Rightarrow> smells
      | Some s \<Rightarrow> store_counts prefix kvs (AList.update (prefix @ safe_key s) v smells))"

definition parse_file :: "string \<Rightarrow> string \<Rightarrow> cell list option \<Rightarrow> (string \<times> int) list \<Rightarrow> (string \<times> int) list" where
  "parse_file total_key prefix file smells =
     (case file of
        None \<Rightarrow> smells
      | Some rows \<Rightarrow>
          (let smell_counts = count_rows (map smell_type rows)
           in store_counts prefix smell_counts
                (AList.update total_key (sum_list (map snd smell_counts)) smells)))"

definition item :: "(string \<times> int) list \<Rightarrow> string \<Rightarrow> int" where
  "item d k = the (map_of d k)"

definition parse_results :: "cell list option \<Rightarrow> cell list option \<Rightarrow> (string \<times> int) list" where
  "parse_results design_file impl_file =
     (let smells = [(''total_design_smells'', 0), (''total_impl_smells'', 0), (''total_code_smells'', 0)];
          smells = parse_file ''total_design_smells'' ''design_'' design_file smells;
          smells = parse_file ''total_impl_smells'' ''impl_'' impl_file smells
      in AList.update ''total_code_smells''
           (item smells ''total_design_smells'' + item smells ''total_impl_smells'') smells)"

text \<open>
  What running the tool does: it exceeds the 300 s timeout, it cannot be launched (any
  other exception of \<^verbatim>\<open>subprocess.run\<close>), or it exits with a return code, leaving
  each of the two result files present (with its rows) or absent.
\<close>

datatype tool_outcome =
    Timeout
  | Launch_error
  | Exited int "cell list option" "cell list option"

text \<open>\<open>DesigniteRunner.run\<close>: a non-zero return code is logged and the files are parsed all the same.\<close>

definition designite_run :: "tool_outcome \<Rightarrow> (string \<times> int) list" where
  "designite_run outcome =
     (case outcome of
        Timeout \<Rightarrow> []
      | Launch_error \<Rightarrow> []
      | Exited rc design_file impl_file \<Rightarrow> parse_results design_file impl_file)"

text \<open>
  \<open>run_designite\<close> (scripts/08b\_run\_designite\_temporal.py). Here the name is
  normalised before it is counted, inside the loop over the rows; a \<open>None\<close> cell
  raises there, before the total is computed, and the handler leaves the total at 0
  and stores no key of that file.
\<close>

fun normalised :: "cell list \<Rightarrow> string list option" where
  "normalised [] = Some []"
| "normalised (c # cs) =
     (case smell_type c of
        None \<Rightarrow> None
      | Some s \<Rightarrow> (case normalised cs of None \<Rightarrow> None | Some ks \<Rightarrow> Some (safe_key s # ks)))"

definition parse_file_b :: "string \<Rightarrow> cell list option \<Rightarrow> (string \<times> int) list \<Rightarrow> int \<times> (string \<times> int) list" where
  "parse_file_b prefix file smells =
     (case file of
        None \<Rightarrow> (0, smells)
      | Some rows \<Rightarrow>
          (case normalised rows of
             None \<Rightarrow> (0, smells)
           | Some ks \<Rightarrow>
               (let counts = count_rows ks
                in (sum_list (map snd counts),
                    update_all smells (map (\<lambda>kv. (prefix @ fst kv, snd kv)) counts)))))"

definition run_designite :: "tool_outcome \<Rightarrow> (string \<times> int) list" where
  "run_designite outcome =
     (case outcome of
        Timeout \<Rightarrow> []
      | Launch_error \<Rightarrow> []
      | Exited rc design_file impl_file \<Rightarrow>
          (case parse_file_b ''design_'' design_file [] of
             (design_total, smells1) \<Rightarrow>
               (case parse_file_b ''impl_'' impl_file smells1 of
                  (impl_total, smells2) \<Rightarrow>
                    update_all smells2
                      [(''total_design_smells'', design_total),
                       (''total_impl_smells'', impl_total),
                       (''total_code_smells'', design_total + impl_total)])))"

section \<open>GitHelper: the working tree of one clone\<close>

text \<open>
  The working tree of a clone is on a branch or on a detached commit. The state of a
  clone also records, in order, the calls the pipeline made on it: a commit lookup
  before a date, and a \<^verbatim>\<open>git checkout <target> --force\<close> with its success.
\<close>

datatype head = On_branch string | Detached string

datatype git_call = Last_commit_before datetime | Checkout string bool

record clone =
  head :: head
  calls :: "git_call list"

text \<open>
  What the pipeline cannot decide by itself is given by the world of one repository:
  what cloning returns, the date of the first commit, the wall clock read in the
  iteration of each project year, the commit found before a date, whether the
  checkout of a commit succeeds, the branch names the clone resolves, what the
  static-analysis tool does in each project year, and what the history and the remote
  API yield for the social metrics.
\<close>

record commit_stats =
  cs_commit_count :: int
  cs_author_count :: int
  cs_timezone_count :: int
  cs_days_active :: "int option"
  cs_bus_factor :: "rat option"

record repo_env =
  clone_path :: "string option"
  first_commit :: "datetime option"
  now_at :: "int \<Rightarrow> datetime"
  commit_before :: "datetime \<Rightarrow> string option"
  checkout_ok :: "string \<Rightarrow> bool"
  branches :: "string list"
  tool :: "int \<Rightarrow> tool_outcome"
  commit_lines :: "datetime \<Rightarrow> commit_stats option"
  issues_or_prs :: "string \<Rightarrow> datetime \<Rightarrow> py_exc + (int \<times> rat)"
  commit_count_until :: "datetime \<Rightarrow> int"

definition get_last_commit_before :: "repo_env \<Rightarrow> datetime \<Rightarrow> clone \<Rightarrow> string option \<times> clone" where
  "get_last_commit_before env before_date st =
     (commit_before env before_date, st\<lparr>calls := calls st @ [Last_commit_before before_date]\<rparr>)"

definition checkout :: "repo_env \<Rightarrow> string \<Rightarrow> clone \<Rightarrow> bool \<times> clone" where
  "checkout env commit_hash st =
     (let ok = checkout_ok env commit_hash
      in (ok, \<lparr>head = (if ok then Detached commit_hash else head st),
               calls = calls st @ [Checkout commit_hash ok]\<rparr>))"

text \<open>
  \<^verbatim>\<open>git checkout <name> --force\<close> for a branch name: it succeeds when the name
  resolves. \<^verbatim>\<open>HEAD\<close> always resolves, to where the working tree already is.
\<close>

definition resolve :: "repo_env \<Rightarrow> clone \<Rightarrow> string \<Rightarrow> head option" where
  "resolve env st name =
     (if name = ''HEAD'' then Some (head st)
      else if name \<in> set (branches env) then Some (On_branch name)
      else None)"

fun try_branches :: "string list \<Rightarrow> repo_env \<Rightarrow> clone \<Rightarrow> bool \<times> clone" where
  "try_branches [] env st = (False, st)"
| "try_branches (branch # rest) env st =
     (case resolve env st branch of
        Some h \<Rightarrow> (True, \<lparr>head = h, calls = calls st @ [Checkout branch True]\<rparr>)
      | None \<Rightarrow> try_branches rest env (st\<lparr>calls := calls st @ [Checkout branch False]\<rparr>))"

definition checkout_default_branch :: "repo_env \<Rightarrow> clone \<Rightarrow> bool \<times> clone" where
  "checkout_default_branch env st = try_branches [''main'', ''master''] env st"

text \<open>\<open>checkout_default\<close> of scripts/08b\_run\_designite\_temporal.py.\<close>

definition checkout_default :: "repo_env \<Rightarrow> clone \<Rightarrow> bool \<times> clone" where
  "checkout_default env st = try_branches [''main'', ''master'', ''HEAD''] env st"

section \<open>Social metrics and community smell indicators\<close>

text \<open>
  \<open>SocialMetricsExtractor.extract_for_period\<close>. The dictionary starts with its nine
  default entries. What the commit log yields is assigned when the log is not empty;
  the counts of pull requests and issues come from the remote API, whose calls may
  raise.
\<close>

definition default_metrics :: row where
  "default_metrics =
     [(''commit_count'', PyInt 0), (''author_count'', PyInt 0), (''bus_factor_number'', PyNone),
      (''pr_count'', PyInt 0), (''issue_count'', PyInt 0), (''pr_participants_mean'', PyFloat 0),
      (''issue_participants_mean'', PyFloat 0), (''timezone_count'', PyInt 0), (''days_active'', PyInt 0)]"

definition commit_metrics :: "commit_stats \<Rightarrow> row" where
  "commit_metrics cs =
     [(''commit_count'', PyInt (cs_commit_count cs)), (''author_count'', PyInt (cs_author_count cs)),
      (''timezone_count'', PyInt (cs_timezone_count cs))]
     @ (case cs_days_active cs of None \<Rightarrow> [] | Some d \<Rightarrow> [(''days_active'', PyInt d)])
     @ (case cs_bus_factor cs of None \<Rightarrow> [] | Some b \<Rightarrow> [(''bus_factor_number'', PyFloat b)])"

definition extract_for_period :: "repo_env \<Rightarrow> datetime \<Rightarrow> py_exc + row" where
  "extract_for_period env until_date =
     (let metrics = (case commit_lines env until_date of
                       None \<Rightarrow> default_metrics
                     | Some cs \<Rightarrow> update_all default_metrics (commit_metrics cs))
      in case issues_or_prs env ''pr'' until_date of
           Inl e \<Rightarrow> Inl e
         | Inr (pr_n, pr_mean) \<Rightarrow>
             (case issues_or_prs env ''issue'' until_date of
                Inl e \<Rightarrow> Inl e
              | Inr (issue_n, issue_mean) \<Rightarrow>
                  Inr (update_all metrics
                         [(''pr_count'', PyInt pr_n), (''pr_participants_mean'', PyFloat pr_mean),
                          (''issue_count'', PyInt issue_n),
                          (''issue_participants_mean'', PyFloat issue_mean)])))"

text \<open>The number a value stands for, when it is one.\<close>

definition num :: "pyval option \<Rightarrow> rat option" where
  "num v = (case v of Some (PyInt i) \<Rightarrow> Some (of_int i) | Some (PyFloat r) \<Rightarrow> Some r | _ \<Rightarrow> None)"

definition exceeds :: "pyval option \<Rightarrow> rat \<Rightarrow> bool" where
  "exceeds v bound = (case num v of None \<Rightarrow> False | Some x \<Rightarrow> x > bound)"

definition get_or :: "row \<Rightarrow> string \<Rightarrow> pyval \<Rightarrow> pyval" where
  "get_or d k dflt = (case map_of d k of None \<Rightarrow> dflt | Some v \<Rightarrow> v)"

definition flag :: "bool \<Rightarrow> pyval" where
  "flag b = PyInt (if b then 1 else 0)"

definition compute_community_smell_indicators :: "row \<Rightarrow> row" where
  "compute_community_smell_indicators metrics =
     (let bf = map_of metrics ''bus_factor_number''
      in [(''lone_wolf'', flag (exceeds bf (9 / 10))),
          (''radio_silence'',
             flag (num (Some (get_or metrics ''pr_count'' (PyInt 0))) = Some 0
                 \<and> num (Some (get_or metrics ''issue_count'' (PyInt 0))) = Some 0)),
          (''org_silo'', PyInt 0),
          (''org_silo_proxy'',
             flag ((case num (Some (get_or metrics ''author_count'' (PyInt 0))) of
                      None \<Rightarrow> False | Some n \<Rightarrow> n \<ge> 5)
                 \<and> exceeds bf (7 / 10)))])"

section \<open>TemporalExtractionPipeline.process\_repo\<close>

record args =
  github_token :: "string option"
  designite_jar :: "string option"
  skip_designite :: bool
  dry_run :: bool
  max_years :: int
  start_from :: int

text \<open>
  \<open>__init__\<close>: \<^verbatim>\<open>self.api\<close> exists when a token was given, \<^verbatim>\<open>self.designite\<close>
  when a jar was given and the pass is not skipped. \<open>None\<close> and the empty text are
  both false in Python.
\<close>

definition truthy :: "string option \<Rightarrow> bool" where
  "truthy s = (case s of None \<Rightarrow> False | Some t \<Rightarrow> t \<noteq> [])"

definition has_api :: "args \<Rightarrow> bool" where
  "has_api a = truthy (github_token a)"

definition has_designite :: "args \<Rightarrow> bool" where
  "has_designite a = (truthy (designite_jar a) \<and> \<not> skip_designite a)"

record repo =
  repo_name :: string
  owner :: string
  repo_slug :: string

definition DAYS_PER_YEAR :: int where
  "DAYS_PER_YEAR = 365"

definition MAX_PROJECT_YEARS :: int where
  "MAX_PROJECT_YEARS = 5"

text \<open>\<^verbatim>\<open>first_commit_date + timedelta(days=year_n * DAYS_PER_YEAR)\<close>\<close>

definition snapshot_date_of :: "datetime \<Rightarrow> int \<Rightarrow> py_exc + datetime" where
  "snapshot_date_of first_commit_date year_n =
     (case timedelta_days (year_n * DAYS_PER_YEAR) of
        Inl e \<Rightarrow> Inl e
      | Inr delta \<Rightarrow> add_timedelta first_commit_date delta)"

definition int_smells :: "(string \<times> int) list \<Rightarrow> row" where
  "int_smells smells = map (\<lambda>kv. (fst kv, PyInt (snd kv))) smells"

text \<open>Step 3b: checkout, Designite, and back to the default branch.\<close>

definition designite_step :: "args \<Rightarrow> repo_env \<Rightarrow> int \<Rightarrow> string \<Rightarrow> row \<Rightarrow> clone \<Rightarrow> row \<times> clone" where
  "designite_step a env year_n commit_hash year_result st =
     (if has_designite a \<and> \<not> dry_run a then
        (case checkout env commit_hash st of
           (True, st1) \<Rightarrow>
             (update_all year_result (int_smells (designite_run (tool env year_n))),
              snd (checkout_default_branch env st1))
         | (False, st1) \<Rightarrow> (year_result, st1))
      else (year_result, st))"

text \<open>Step 3c: the social metrics and the indicators, or the commit count of a dry run.\<close>

definition social_step :: "args \<Rightarrow> repo_env \<Rightarrow> datetime \<Rightarrow> row \<Rightarrow> py_exc + row" where
  "social_step a env snapshot_date year_result =
     (if has_api a \<and> \<not> dry_run a then
        (case extract_for_period env snapshot_date of
           Inl e \<Rightarrow> Inl e
         | Inr social \<Rightarrow>
             Inr (update_all (update_all year_result social)
                    (compute_community_smell_indicators social)))
      else if dry_run a then
        Inr (update_all year_result
               [(''commit_count'', PyInt (commit_count_until env snapshot_date))])
      else Inr year_result)"

text \<open>The dictionary \<open>year_result\<close> as it is first built, before the metrics are merged in.\<close>

definition new_year_result :: "repo \<Rightarrow> int \<Rightarrow> datetime \<Rightarrow> datetime \<Rightarrow> string \<Rightarrow> row" where
  "new_year_result r year_n snapshot_date first_commit_date commit_hash =
     [(''repo_name'', PyStr (repo_name r)), (''owner'', PyStr (owner r)),
      (''repo_slug'', PyStr (repo_slug r)), (''project_year'', PyInt year_n),
      (''snapshot_date'', PyStr (strftime_ymd snapshot_date)),
      (''first_commit_date'', PyStr (strftime_ymd first_commit_date)),
      (''snapshot_commit'', PyStr (take 12 commit_hash))]"

text \<open>
  One iteration of the loop over the project years ends in one of four ways:
  \<^verbatim>\<open>break\<close> (the date is in the future), \<^verbatim>\<open>continue\<close> (no commit before the
  date), a row appended to the results, or an exception that leaves the loop.
\<close>

datatype year_step = Break | Skip | Append row | Raise py_exc

definition process_year :: "args \<Rightarrow> repo_env \<Rightarrow> repo \<Rightarrow> datetime \<Rightarrow> int \<Rightarrow> clone \<Rightarrow> year_step \<times> clone" where
  "process_year a env r first_commit_date year_n st =
     (case snapshot_date_of first_commit_date year_n of
        Inl e \<Rightarrow> (Raise e, st)
      | Inr snapshot_date \<Rightarrow>
          if snapshot_date > now_at env year_n then (Break, st)
          else
            (case get_last_commit_before env snapshot_date st of
               (None, st1) \<Rightarrow> (Skip, st1)
             | (Some commit_hash, st1) \<Rightarrow>
                 (let year_result =
                        new_year_result r year_n snapshot_date first_commit_date commit_hash
                  in case designite_step a env year_n commit_hash year_result st1 of
                       (year_result1, st2) \<Rightarrow>
                         (case social_step a env snapshot_date year_result1 of
                            Inl e \<Rightarrow> (Raise e, st2)
                          | Inr year_result2 \<Rightarrow> (Append year_result2, st2)))))"

fun year_loop :: "args \<Rightarrow> repo_env \<Rightarrow> repo \<Rightarrow> datetime \<Rightarrow> int list \<Rightarrow> row list \<Rightarrow> clone \<Rightarrow> (py_exc + row list) \<times> clone" where
  "year_loop a env r t0 [] results st = (Inr results, st)"
| "year_loop a env r t0 (year_n # rest) results st =
     (case process_year a env r t0 year_n st of
        (Break, st1) \<Rightarrow> (Inr results, st1)
      | (Skip, st1) \<Rightarrow> year_loop a env r t0 rest results st1
      | (Append year_result, st1) \<Rightarrow> year_loop a env r t0 rest (results @ [year_result]) st1
      | (Raise e, st1) \<Rightarrow> (Inl e, st1))"

text \<open>
  \<open>process_repo\<close>. A failed clone and a repository without a first commit return
  the empty list at once. An exception in the loop leaves the function before the
  final \<open>checkout_default_branch\<close>.
\<close>

definition process_repo :: "args \<Rightarrow> repo_env \<Rightarrow> repo \<Rightarrow> clone \<Rightarrow> (py_exc + row list) \<times> clone" where
  "process_repo a env r st =
     (case clone_path env of
        None \<Rightarrow> (Inr [], st)
      | Some repo_dir \<Rightarrow>
          (case first_commit env of
             None \<Rightarrow> (Inr [], st)
           | Some first_commit_date \<Rightarrow>
               (case year_loop a env r first_commit_date [1..max_years a] [] st of
                  (Inl e, st1) \<Rightarrow> (Inl e, st1)
                | (Inr results, st1) \<Rightarrow>
                    (Inr results,
                     if repo_dir \<noteq> [] then snd (checkout_default_branch env st1) else st1))))"

section \<open>TemporalExtractionPipeline.run\<close>

text \<open>
  A job is one repository of the loaded list with its world and the state its clone
  starts in. The run keeps the accumulated rows, the count of failed repositories, the
  names of the repositories it processed, and the tables it wrote:
  \<open>(partial, rows)\<close> for each write, in order.
\<close>

record job =
  job_repo :: repo
  job_env :: repo_env
  job_clone :: clone

record run_state =
  all_results :: "row list"
  failed :: nat
  visited :: "string list"
  saves :: "(bool \<times> row list) list"

text \<open>\<open>_save_results\<close>: nothing is written for an empty result set.\<close>

definition save_results :: "bool \<Rightarrow> run_state \<Rightarrow> run_state" where
  "save_results partial rs =
     (if all_results rs = [] then rs
      else rs\<lparr>saves := saves rs @ [(partial, all_results rs)]\<rparr>)"

text \<open>
  The loop \<^verbatim>\<open>for i, repo in enumerate(repos)\<close>, from index \<open>i\<close> on. The handler
  \<^verbatim>\<open>except Exception\<close> counts a failure and goes on; an exception that is no
  \<open>Exception\<close> leaves \<open>run\<close>.
\<close>

fun run_loop :: "args \<Rightarrow> nat \<Rightarrow> job list \<Rightarrow> run_state \<Rightarrow> py_exc option \<times> run_state" where
  "run_loop a i [] rs = (None, rs)"
| "run_loop a i (j # rest) rs =
     (let rs0 = rs\<lparr>visited := visited rs @ [repo_name (job_repo j)]\<rparr>;
          checkpoint = (\<lambda>s. if (i + 1) mod 10 = 0 then save_results True s else s)
      in case fst (process_repo a (job_env j) (job_repo j) (job_clone j)) of
           Inr results \<Rightarrow>
             run_loop a (i + 1) rest (checkpoint (rs0\<lparr>all_results := all_results rs0 @ results\<rparr>))
         | Inl e \<Rightarrow>
             if is_Exception e
             then run_loop a (i + 1) rest (checkpoint (rs0\<lparr>failed := failed rs0 + 1\<rparr>))
             else (Some e, rs0))"

definition run :: "args \<Rightarrow> job list \<Rightarrow> py_exc option \<times> run_state" where
  "run a jobs =
     (let repos = (if dry_run a then take 3 jobs else jobs)
      in case run_loop a 0 repos \<lparr>all_results = [], failed = 0, visited = [], saves = []\<rparr> of
           (None, rs) \<Rightarrow> (None, save_results False rs)
         | (Some e, rs) \<Rightarrow> (Some e, rs))"

section \<open>The main loop of scripts/08b\_run\_designite\_temporal.py\<close>

text \<open>
  The second script reads the rows of a table written by the first and runs the tool
  on the snapshot of each row. For the row at an index the world says whether the
  clone of its repository exists, whether the checkout of its commit succeeds, and
  what the tool does. The state holds the rows (updated in place), the two counters,
  the indices the loop did not skip, and the tables written. The working trees of
  the clones are not followed here.
\<close>

record snapshot_world =
  sw_isdir :: bool
  sw_checkout_ok :: bool
  sw_tool :: tool_outcome

record main_state =
  m_rows :: "row list"
  m_processed :: nat
  m_failed :: nat
  m_visited :: "nat list"
  m_saves :: "(bool \<times> row list) list"

fun main_loop :: "int \<Rightarrow> (nat \<Rightarrow> snapshot_world) \<Rightarrow> nat list \<Rightarrow> main_state \<Rightarrow> main_state" where
  "main_loop start w [] st = st"
| "main_loop start w (i # rest) st =
     (if int i < start then main_loop start w rest st
      else
        (let st0 = st\<lparr>m_visited := m_visited st @ [i]\<rparr> in
         if \<not> sw_isdir (w i) then main_loop start w rest (st0\<lparr>m_failed := m_failed st0 + 1\<rparr>)
         else if \<not> sw_checkout_ok (w i)
         then main_loop start w rest (st0\<lparr>m_failed := m_failed st0 + 1\<rparr>)
         else
           (let smells = run_designite (sw_tool (w i));
                st1 = st0\<lparr>m_rows := (m_rows st0)[i := update_all (m_rows st0 ! i) (int_smells smells)],
                          m_processed := m_processed st0 + 1\<rparr>;
                st2 = (if m_processed st1 mod 20 = 0
                       then st1\<lparr>m_saves := m_saves st1 @ [(True, m_rows st1)]\<rparr> else st1)
            in main_loop start w rest st2)))"

definition main_08b :: "int \<Rightarrow> (nat \<Rightarrow> snapshot_world) \<Rightarrow> row list \<Rightarrow> main_state" where
  "main_08b start w rows =
     (let st = main_loop start w [0..<length rows]
                 \<lparr>m_rows = rows, m_processed = 0, m_failed = 0, m_visited = [], m_saves = []\<rparr>
      in st\<lparr>m_saves := m_saves st @ [(False, m_rows st)]\<rparr>)"

section \<open>Notions used in the statements about the pipeline\<close>

text \<open>\<^verbatim>\<open>k.startswith(prefix)\<close>, and the keys \<open>_save_results\<close> takes for technical fields.\<close>

definition startswith :: "string \<Rightarrow> string \<Rightarrow> bool" where
  "startswith k prefix = (take (length prefix) k = prefix)"





text \<open>The dates for which a clone was asked for the last commit before them, in order.\<close>

definition lookups :: "git_call list \<Rightarrow> datetime list" where
  "lookups cs = concat (map (\<lambda>c. case c of Last_commit_before d \<Rightarrow> [d] | Checkout _ _ \<Rightarrow> []) cs)"


section \<open>A sample repository\<close>

text \<open>
  The scenario of the specification: a repository whose first commit is dated
  2019-01-01, processed on 2024-06-01 with at most five project years. Every lookup
  finds a commit, the tool times out, and the remote API reports no issue and no pull
  request.
\<close>

definition scenario_env :: repo_env where
  "scenario_env =
     \<lparr>clone_path = Some ''repos/sample'',
      first_commit = Some (mk_datetime 2019 1 1 0),
      now_at = (\<lambda>n. mk_datetime 2024 6 1 0),
      commit_before = (\<lambda>d. Some ''0123456789abcdef''),
      checkout_ok = (\<lambda>h. True),
      branches = [''main''],
      tool = (\<lambda>n. Timeout),
      commit_lines = (\<lambda>d. None),
      issues_or_prs = (\<lambda>t d. Inr (0, 0)),
      commit_count_until = (\<lambda>d. 0)\<rparr>"

definition scenario_args :: args where
  "scenario_args =
     \<lparr>github_token = Some ''token'', designite_jar = Some ''DesigniteJava.jar'',
      skip_designite = False, dry_run = False, max_years = 5, start_from = 0\<rparr>"

definition scenario_repo :: repo where
  "scenario_repo = \<lparr>repo_name = ''sample'', owner = ''someone'', repo_slug = ''sample''\<rparr>"

definition scenario_clone :: clone where
  "scenario_clone = \<lparr>head = On_branch ''main'', calls = []\<rparr>"


section \<open>Notions used in the statements about the run\<close>

text \<open>
  What processing one job yields, the rows it contributes to the accumulated result
  set (none when it raised), and whether it ends the run: an exception that is no
  \<open>Exception\<close> is not caught by the loop.
\<close>

definition job_outcome :: "args \<Rightarrow> job \<Rightarrow> py_exc + row list" where
  "job_outcome a j = fst (process_repo a (job_env j) (job_repo j) (job_clone j))"

definition rows_of :: "args \<Rightarrow> job \<Rightarrow> row list" where
  "rows_of a j = (case job_outcome a j of Inr rows \<Rightarrow> rows | Inl e \<Rightarrow> [])"


text \<open>The result set accumulated over a list of jobs.\<close>

definition acc :: "args \<Rightarrow> job list \<Rightarrow> row list" where
  "acc a js = concat (map (rows_of a) js)"


text \<open>The sample repository as a job, and a job whose social pass is interrupted from the keyboard.\<close>

definition sample_job :: job where
  "sample_job = \<lparr>job_repo = scenario_repo, job_env = scenario_env, job_clone = scenario_clone\<rparr>"


text \<open>The sum of the per-category counts of a parser result: the values under the keys with a prefix.\<close>

definition category_sum :: "string \<Rightarrow> (string \<times> int) list \<Rightarrow> int" where
  "category_sum prefix smells =
     sum_list (map snd (filter (\<lambda>kv. startswith (fst kv) prefix) smells))"

text \<open>
  Sample inputs: a repository whose only branch is \<open>develop\<close>, a second job of the
  list, and a design result file whose second row is cut short.
\<close>

definition develop_env :: repo_env where
  "develop_env = scenario_env\<lparr>branches := [''develop'']\<rparr>"

definition develop_clone :: clone where
  "develop_clone = \<lparr>head = On_branch ''develop'', calls = []\<rparr>"

definition other_job :: job where
  "other_job =
     \<lparr>job_repo = \<lparr>repo_name = ''other'', owner = ''someone'', repo_slug = ''other''\<rparr>,
      job_env = scenario_env, job_clone = scenario_clone\<rparr>"

definition short_row_file :: "cell list" where
  "short_row_file = [Cell ''Unutilized Abstraction'', Empty_cell]"

section \<open>Predicates used in the statements about the two clients\<close>

text \<open>The number of HTTP requests a trace holds.\<close>

definition requests :: "'a world_scheme \<Rightarrow> nat" where
  "requests w = length (filter (\<lambda>e. e = Request) (trace w))"



text \<open>Retryable failures that carry no reset hint.\<close>

definition gql_plain_retry :: "'a gql_response \<Rightarrow> bool" where
  "gql_plain_retry r =
     (case r of
        RequestException \<Rightarrow> False
      | Reply code h_reset body \<Rightarrow>
          code = 502 \<or> code = 503 \<or> ((code = 403 \<or> code = 429) \<and> h_reset = Absent))"

definition get_plain_retry :: "'a response \<Rightarrow> bool" where
  "get_plain_retry r =
     (case r of
        Success _ _ _ \<Rightarrow> False
      | HTTPError code _ \<Rightarrow> code \<noteq> 403 \<and> code \<noteq> 404 \<and> code \<noteq> 422
      | URLError \<Rightarrow> True)"

text \<open>The response reports \<open>n\<close> in its \<^verbatim>\<open>X-RateLimit-Remaining\<close> header.\<close>

definition reported :: "'a response \<Rightarrow> int \<Rightarrow> bool" where
  "reported r n = (case r of Success h_rem _ _ \<Rightarrow> h_rem = Num n | _ \<Rightarrow> False)"

(* ---- theorems ---- *)

section \<open>Properties of the two clients\<close>

lemma requests_sleep [simp]: "requests (sleep d w) = requests w"
  by (simp add: requests_def sleep_def)

lemma requests_urlopen [simp]: "requests (urlopen w) = Suc (requests w)"
  by (simp add: requests_def urlopen_def)









section \<open>Dictionaries and the keys of a row\<close>

lemma keys_update [simp]: "keys (AList.update k v d) = insert k (keys d)"
  by (simp add: keys_def dom_update)


lemma keys_update_all [simp]: "keys (update_all d other) = keys d \<union> keys other"
  unfolding update_all_def
  by (induction other arbitrary: d) (auto simp: keys_def dom_update)









section \<open>One project year, and the loop over the project years\<close>


lemma lookups_append [simp]: "lookups (xs @ ys) = lookups xs @ lookups ys"
  by (simp add: lookups_def)

lemma lookups_Checkout [simp]: "lookups [Checkout t ok] = []"
  by (simp add: lookups_def)

lemma lookups_Last [simp]: "lookups [Last_commit_before d] = [d]"
  by (simp add: lookups_def)

lemma lookups_try_branches:
  "lookups (calls (snd (try_branches bs env st))) = lookups (calls st)"
  by (induction bs env st rule: try_branches.induct) (auto split: option.splits)

lemma lookups_checkout_default_branch [simp]:
  "lookups (calls (snd (checkout_default_branch env st))) = lookups (calls st)"
  by (simp only: checkout_default_branch_def lookups_try_branches)















section \<open>The targets of the project years\<close>










section \<open>The scenario of 2019\<close>










section \<open>Rows with missing sub-results\<close>

lemma keys_int_smells [simp]: "keys (int_smells smells) = keys smells"
  by (auto simp: int_smells_def keys_def image_image)














section \<open>Waits and budget of the two clients\<close>

lemma read_response_Inl:
  "read_response h_rem h_reset body st = Inl st1 \<Longrightarrow>
   trace st1 = trace st \<and> clock st1 = clock st \<and>
   (remaining st1 = remaining st \<or> remaining st1 = 5000 \<or> h_rem = Num (remaining st1))"
  by (auto simp: read_response_def hdr_int_def Let_def split: hdr.splits option.splits)

lemma read_response_Inr:
  "read_response h_rem h_reset body st = Inr (d, st1) \<Longrightarrow>
   trace st1 = trace st @ [Sleep REQUEST_DELAY] \<and>
   (remaining st1 = 5000 \<or> h_rem = Num (remaining st1))"
  by (auto simp: read_response_def hdr_int_def Let_def sleep_def split: hdr.splits option.splits)

lemma get_loop_cases:
  obtains
    (return) r st1 tl where
      "get_loop rs (a # rest) st = (r, st1)"
      "trace st1 = trace st @ Request # tl" "Request \<notin> set tl"
      "remaining st1 = remaining st \<or> remaining st1 = 5000 \<or> reported (rs a) (remaining st1)"
  | (continue) st1 d where
      "get_loop rs (a # rest) st = get_loop rs rest st1"
      "trace st1 = trace st @ [Request, Sleep d]"
      "remaining st1 = remaining st \<or> remaining st1 = 5000 \<or> reported (rs a) (remaining st1)"
proof (cases "rs a")
  case (Success h_rem h_reset body)
  show ?thesis
  proof (cases "read_response h_rem h_reset body (urlopen st)")
    case (Inl st1)
    from read_response_Inl[OF Inl] have
      f: "trace st1 = trace st @ [Request]" "remaining st1 = remaining st \<or> remaining st1 = 5000 \<or> h_rem = Num (remaining st1)"
      by (simp_all add: urlopen_def)
    show ?thesis
    proof (cases "a < 2")
      case True
      with Success Inl f show ?thesis
        by (intro continue[of "sleep (5 * (of_nat a + 1)) st1" "5 * (of_nat a + 1)"])
           (auto simp: Let_def sleep_def reported_def)
    next
      case False
      with Success Inl f show ?thesis
        by (intro return[of "Inr None" st1 "[]"]) (auto simp: Let_def reported_def)
    qed
  next
    case (Inr p)
    obtain d st1 where p: "p = (d, st1)" by (cases p)
    from read_response_Inr[OF Inr[unfolded p]] have
      f: "trace st1 = trace st @ [Request, Sleep REQUEST_DELAY]" "remaining st1 = 5000 \<or> h_rem = Num (remaining st1)"
      by (simp_all add: urlopen_def)
    with Success Inr p show ?thesis
      by (intro return[of "Inr (Some d)" st1 "[Sleep REQUEST_DELAY]"]) (auto simp: Let_def reported_def)
  qed
next
  case (HTTPError code h_reset)
  show ?thesis
  proof (cases "code = 403")
    case True
    show ?thesis
    proof (cases "hdr_int h_reset 0")
      case (Inl e)
      with HTTPError True show ?thesis
        by (intro return[of "Inl e" "urlopen st" "[]"]) (auto simp: Let_def urlopen_def)
    next
      case (Inr reset)
      with HTTPError True show ?thesis
        by (intro continue[of "sleep (max 0 (of_int reset - clock (urlopen st)) + 5) (urlopen st)"
                              "max 0 (of_int reset - clock (urlopen st)) + 5"])
           (auto simp: Let_def urlopen_def sleep_def)
    qed
  next
    case False
    show ?thesis
    proof (cases "code = 404 \<or> code = 422 \<or> \<not> a < 2")
      case True
      with HTTPError \<open>code \<noteq> 403\<close> show ?thesis
        by (intro return[of "Inr None" "urlopen st" "[]"]) (auto simp: Let_def urlopen_def)
    next
      case False
      with HTTPError \<open>code \<noteq> 403\<close> show ?thesis
        by (intro continue[of "sleep (5 * (of_nat a + 1)) (urlopen st)" "5 * (of_nat a + 1)"])
           (auto simp: Let_def urlopen_def sleep_def)
    qed
  qed
next
  case URLError
  show ?thesis
  proof (cases "a < 2")
    case True
    with URLError show ?thesis
      by (intro continue[of "sleep (5 * (of_nat a + 1)) (urlopen st)" "5 * (of_nat a + 1)"])
         (auto simp: Let_def urlopen_def sleep_def)
  next
    case False
    with URLError show ?thesis
      by (intro return[of "Inr None" "urlopen st" "[]"]) (auto simp: Let_def urlopen_def)
  qed
qed

lemma get_loop_invariant:
  "\<exists>tl. trace (snd (get_loop rs as st)) = trace st @ tl
      \<and> length (filter (\<lambda>e. e = Request) tl) \<le> length as
      \<and> (as \<noteq> [] \<longrightarrow> (\<exists>tl'. tl = Request # tl'))
      \<and> (remaining (snd (get_loop rs as st)) = remaining st
         \<or> remaining (snd (get_loop rs as st)) = 5000
         \<or> (\<exists>a\<in>set as. reported (rs a) (remaining (snd (get_loop rs as st)))))"
proof (induction as arbitrary: st)
  case Nil
  then show ?case by simp
next
  case (Cons a as)
  show ?case
  proof (cases rule: get_loop_cases[of rs a as st])
    case (return r st1 tl)
    from return(3) have "filter (\<lambda>e. e = Request) tl = []"
      by (induction tl) auto
    with return show ?thesis
      by (intro exI[of _ "Request # tl"]) (auto simp del: get_loop.simps)
  next
    case (continue st1 d)
    from Cons.IH[of st1] obtain tl where
      tl: "trace (snd (get_loop rs as st1)) = trace st1 @ tl"
          "length (filter (\<lambda>e. e = Request) tl) \<le> length as"
          "remaining (snd (get_loop rs as st1)) = remaining st1
           \<or> remaining (snd (get_loop rs as st1)) = 5000
           \<or> (\<exists>a\<in>set as. reported (rs a) (remaining (snd (get_loop rs as st1))))"
      by blast
    with continue show ?thesis
      by (intro exI[of _ "Request # Sleep d # tl"]) (auto simp del: get_loop.simps)
  qed
qed


lemma gql_loop_requests:
  "requests (snd (gql_loop rs jitter as w)) \<le> requests w + length as"
proof (induction as arbitrary: w)
  case Nil
  then show ?case by simp
next
  case (Cons a as)
  let ?w0 = "urlopen (sleep (of_int (jitter a)) w)"
  have "(\<exists>d. gql_loop rs jitter (a # as) w = gql_loop rs jitter as (sleep d ?w0))
        \<or> (\<exists>r. gql_loop rs jitter (a # as) w = (r, ?w0))"
    by (cases "rs a") (auto simp: Let_def split: sum.splits gql_body.splits)
  then show ?case
  proof
    assume "\<exists>d. gql_loop rs jitter (a # as) w = gql_loop rs jitter as (sleep d ?w0)"
    then obtain d where d: "gql_loop rs jitter (a # as) w = gql_loop rs jitter as (sleep d ?w0)" ..
    from Cons.IH[of "sleep d ?w0"] show ?thesis
      unfolding d by simp
  next
    assume "\<exists>r. gql_loop rs jitter (a # as) w = (r, ?w0)"
    then obtain r where r: "gql_loop rs jitter (a # as) w = (r, ?w0)" ..
    show ?thesis unfolding r by simp
  qed
qed

lemma gql_backoff_trace:
  "\<forall>a\<in>set as. gql_plain_retry (rs a) \<Longrightarrow>
   trace (snd (gql_loop rs jitter as w)) =
     trace w @ concat (map (\<lambda>a. [Sleep (of_int (jitter a)), Request, Sleep (2 ^ (a + 2))]) as)"
proof (induction as arbitrary: w)
  case Nil
  then show ?case by simp
next
  case (Cons a as)
  then have r: "gql_plain_retry (rs a)" and rest: "\<forall>a\<in>set as. gql_plain_retry (rs a)"
    by simp_all
  let ?w1 = "sleep (2 ^ (a + 2)) (urlopen (sleep (of_int (jitter a)) w))"
  from r have step: "gql_loop rs jitter (a # as) w = gql_loop rs jitter as ?w1"
    by (cases "rs a") (auto simp: gql_plain_retry_def retry_wait_def Let_def)
  have "trace ?w1 = trace w @ [Sleep (of_int (jitter a)), Request, Sleep (2 ^ (a + 2))]"
    by (simp add: sleep_def urlopen_def)
  with Cons.IH[OF rest, of ?w1] show ?case
    unfolding step by simp
qed

lemma gql_hint_step:
  assumes "rs a = Reply code (Num r) body" "code = 403 \<or> code = 429"
  shows "gql_loop rs jitter (a # rest) w =
           gql_loop rs jitter rest
             (sleep (min (max (of_int (r - \<lfloor>clock w + of_int (jitter a)\<rfloor>)) 10) 300)
                (urlopen (sleep (of_int (jitter a)) w)))"
  using assms by (auto simp: retry_wait_def Let_def sleep_def urlopen_def)

lemma get_backoff_trace:
  assumes "\<forall>a<3. get_plain_retry (rs a)"
  shows "trace (snd (get_loop rs [0, 1, 2] st)) =
           trace st @ [Request, Sleep 5, Request, Sleep 10, Request]"
proof -
  from assms have a: "get_plain_retry (rs 0)" "get_plain_retry (rs 1)" "get_plain_retry (rs 2)"
    by simp_all
  have s0: "get_loop rs [0, 1, 2] st = get_loop rs [1, 2] (sleep 5 (urlopen st))"
    using a(1) by (cases "rs 0") (auto simp: get_plain_retry_def Let_def)
  have s1: "get_loop rs [1, 2] s = get_loop rs [2] (sleep 10 (urlopen s))" for s
    using a(2) by (cases "rs 1") (auto simp: get_plain_retry_def Let_def)
  have s2: "get_loop rs [2] s = (Inr None, urlopen s)" for s
    using a(3) by (cases "rs 2") (auto simp: get_plain_retry_def Let_def)
  show ?thesis
    unfolding s0 s1 s2 by (simp add: sleep_def urlopen_def)
qed

lemma get_403_step:
  assumes "rs a = HTTPError 403 h" "hdr_int h 0 = Inr reset"
  shows "get_loop rs (a # rest) st =
           get_loop rs rest (sleep (max 0 (of_int reset - clock st) + 5) (urlopen st))"
  using assms by (simp add: Let_def urlopen_def)


lemma get_requests: "requests (snd (get rs st)) \<le> requests st + 3"
proof -
  from get_loop_invariant[of rs "[0, 1, 2]" "check_rate_limit st"] obtain tl where
    "trace (snd (get rs st)) = trace (check_rate_limit st) @ tl"
    "length (filter (\<lambda>e. e = Request) tl) \<le> 3"
    by (auto simp: get_def)
  then have "requests (snd (get rs st)) \<le> requests (check_rate_limit st) + 3"
    by (simp add: requests_def)
  then show ?thesis
    by (simp add: check_rate_limit_def split: if_splits)
qed

text \<open>
  C5, as amended. Both clients bound their attempts: \<open>get\<close> sends at most three
  requests, \<open>runGraphqlRequest\<close> at most \<open>max_retries\<close>. \<open>runGraphqlRequest\<close> sleeps
  its jitter before every request; after a 502 or 503, or a 403 or 429 without reset
  hint, it waits \<open>2 ^ (attempt + 2)\<close> seconds; after a 403 or 429 with a reset hint
  \<open>r\<close> it waits the time left until \<open>r\<close>, at least 10 and at most 300 seconds.
  \<open>get\<close> has no jitter: it waits 5 and then 10 seconds after failures other than 403,
  and after a 403 it waits the time left until the reset hint plus 5 seconds, with no
  ceiling.
\<close>

theorem retry_waits:
  "requests (snd (get rs st)) \<le> requests st + 3
   \<and> requests (snd (runGraphqlRequest grs jitter n w)) \<le> requests w + nat n
   \<and> ((\<forall>a<nat n. gql_plain_retry (grs a)) \<longrightarrow>
        trace (snd (runGraphqlRequest grs jitter n w)) =
          trace w @ concat (map (\<lambda>a. [Sleep (of_int (jitter a)), Request, Sleep (2 ^ (a + 2))])
                            [0..<nat n]))
   \<and> ((grs a = Reply code (Num r) body \<and> (code = 403 \<or> code = 429)) \<longrightarrow>
        gql_loop grs jitter (a # rest) w =
          gql_loop grs jitter rest
            (sleep (min (max (of_int (r - \<lfloor>clock w + of_int (jitter a)\<rfloor>)) 10) 300)
               (urlopen (sleep (of_int (jitter a)) w))))
   \<and> ((\<forall>a<3. get_plain_retry (rs a)) \<longrightarrow>
        trace (snd (get rs st)) =
          trace (check_rate_limit st) @ [Request, Sleep 5, Request, Sleep 10, Request])
   \<and> ((rs b = HTTPError 403 h \<and> hdr_int h 0 = Inr reset) \<longrightarrow>
        get_loop rs (b # others) st =
          get_loop rs others (sleep (max 0 (of_int reset - clock st) + 5) (urlopen st)))"
proof (intro conjI impI)
  show "requests (snd (get rs st)) \<le> requests st + 3"
    by (rule get_requests)
  show "requests (snd (runGraphqlRequest grs jitter n w)) \<le> requests w + nat n"
    using gql_loop_requests[of grs jitter "[0..<nat n]" w] by (simp add: runGraphqlRequest_def)
next
  assume "\<forall>a<nat n. gql_plain_retry (grs a)"
  then have "\<forall>a\<in>set [0..<nat n]. gql_plain_retry (grs a)" by simp
  from gql_backoff_trace[OF this, of jitter w]
  show "trace (snd (runGraphqlRequest grs jitter n w)) =
          trace w @ concat (map (\<lambda>a. [Sleep (of_int (jitter a)), Request, Sleep (2 ^ (a + 2))])
                            [0..<nat n])"
    by (simp add: runGraphqlRequest_def)
next
  assume "grs a = Reply code (Num r) body \<and> (code = 403 \<or> code = 429)"
  then show "gql_loop grs jitter (a # rest) w =
          gql_loop grs jitter rest
            (sleep (min (max (of_int (r - \<lfloor>clock w + of_int (jitter a)\<rfloor>)) 10) 300)
               (urlopen (sleep (of_int (jitter a)) w)))"
    using gql_hint_step[of grs a code r body jitter rest w] by blast
next
  assume "\<forall>a<3. get_plain_retry (rs a)"
  then show "trace (snd (get rs st)) =
          trace (check_rate_limit st) @ [Request, Sleep 5, Request, Sleep 10, Request]"
    unfolding get_def by (rule get_backoff_trace)
next
  assume "rs b = HTTPError 403 h \<and> hdr_int h 0 = Inr reset"
  then show "get_loop rs (b # others) st =
          get_loop rs others (sleep (max 0 (of_int reset - clock st) + 5) (urlopen st))"
    using get_403_step[of rs b h reset others st] by blast
qed

theorem retry_waits_witness:
  "trace (snd (runGraphqlRequest (\<lambda>a. Reply 503 Absent Neither :: unit gql_response) (\<lambda>a. 3) 2
                 \<lparr>clock = 0, trace = []\<rparr>))
     = [Sleep 3, Request, Sleep 4, Sleep 3, Request, Sleep 8]
   \<and> gql_loop (\<lambda>a. Reply 429 (Num 1000) Neither :: unit gql_response) (\<lambda>a. 3) [0] \<lparr>clock = 0, trace = []\<rparr>
     = gql_loop (\<lambda>a. Reply 429 (Num 1000) Neither) (\<lambda>a. 3) []
         \<lparr>clock = 303, trace = [Sleep 3, Request, Sleep 300]\<rparr>
   \<and> trace (snd (get (\<lambda>a. HTTPError 503 Absent :: unit response) (new_GitHubAPI 0)))
     = [Request, Sleep 5, Request, Sleep 10, Request]
   \<and> get_loop (\<lambda>a. HTTPError 403 (Num 100) :: unit response) [2] (new_GitHubAPI 0)
     = get_loop (\<lambda>a. HTTPError 403 (Num 100)) []
         ((new_GitHubAPI 0)\<lparr>clock := 105, trace := [Request, Sleep 105]\<rparr>)"
  using retry_waits[where rs = "\<lambda>a. HTTPError 503 Absent :: unit response" and st = "new_GitHubAPI 0"
      and grs = "\<lambda>a. Reply 503 Absent Neither :: unit gql_response" and jitter = "\<lambda>a. 3" and n = 2
      and w = "\<lparr>clock = 0, trace = []\<rparr>" and a = 0 and b = 0 and h = Absent and reset = 0]
    retry_waits[where rs = "\<lambda>a. HTTPError 403 (Num 100) :: unit response" and st = "new_GitHubAPI 0"
      and grs = "\<lambda>a. Reply 429 (Num 1000) Neither :: unit gql_response" and jitter = "\<lambda>a. 3" and n = 1
      and w = "\<lparr>clock = 0, trace = []\<rparr>" and a = 0 and code = 429 and r = 1000 and body = Neither
      and rest = "[]" and b = 2 and h = "Num 100" and reset = 100 and others = "[]"]
  by (simp add: gql_plain_retry_def get_plain_retry_def hdr_int_def new_GitHubAPI_def
        check_rate_limit_def sleep_def urlopen_def upt_rec)

text \<open>
  C5 as stated fails for \<open>get\<close>: after a 403 whose reset hint lies 100000 seconds
  ahead it waits 100005 seconds, above any ceiling of 300; its waits carry no jitter
  and do not grow.
\<close>

theorem get_wait_uncapped:
  "trace (snd (get (\<lambda>a. HTTPError 403 (Num 100000) :: unit response) (new_GitHubAPI 0)))
   = [Request, Sleep 100005, Request, Sleep 5, Request, Sleep 5]"
  by (simp add: get_def new_GitHubAPI_def check_rate_limit_def hdr_int_def urlopen_def sleep_def)


lemma check_rate_limit_fields [simp]:
  "remaining (check_rate_limit st) = remaining st"
  "reset_time (check_rate_limit st) = reset_time st"
  by (simp_all add: check_rate_limit_def sleep_def)




section \<open>Checkpoints of a run\<close>


lemma acc_Cons [simp]: "acc a (j # js) = rows_of a j @ acc a js"
  by (simp add: acc_def)

lemma acc_Nil [simp]: "acc a [] = []"
  by (simp add: acc_def)










section \<open>Where the code departs from its own documentation\<close>

lemma checkout_default_branch_result:
  "checkout_default_branch env st = (ok, st1) \<Longrightarrow>
   (''main'' \<in> set (branches env) \<longrightarrow> ok \<and> head st1 = On_branch ''main'')
   \<and> (''main'' \<notin> set (branches env) \<and> ''master'' \<in> set (branches env)
        \<longrightarrow> ok \<and> head st1 = On_branch ''master'')
   \<and> (''main'' \<notin> set (branches env) \<and> ''master'' \<notin> set (branches env)
        \<longrightarrow> \<not> ok \<and> head st1 = head st)"
  by (auto simp: checkout_default_branch_def resolve_def)

text \<open>
  The restore of the second script also tries \<open>HEAD\<close>, which always resolves: it
  reports success, and leaves the working tree where it is when neither \<open>main\<close> nor
  \<open>master\<close> exists.
\<close>

lemma checkout_default_result:
  "fst (checkout_default env st)
   \<and> (''main'' \<notin> set (branches env) \<and> ''master'' \<notin> set (branches env)
        \<longrightarrow> head (snd (checkout_default env st)) = head st)"
  by (simp add: checkout_default_def resolve_def)

text \<open>
  When \<open>main\<close> or \<open>master\<close> resolves, a normal return of \<open>process_repo\<close> that got past
  cloning and the first commit leaves the working tree on the first of the two that
  resolves.
\<close>

lemma process_repo_restores:
  assumes "clone_path env = Some repo_dir" and "repo_dir \<noteq> []"
    and "first_commit env = Some t0"
    and "process_repo a env r st = (Inr rows, st1)"
  shows "(''main'' \<in> set (branches env) \<longrightarrow> head st1 = On_branch ''main'')
   \<and> (''main'' \<notin> set (branches env) \<and> ''master'' \<in> set (branches env)
        \<longrightarrow> head st1 = On_branch ''master'')"
proof -
  from assms obtain st0 where "st1 = snd (checkout_default_branch env st0)"
    by (auto simp: process_repo_def split: prod.splits sum.splits)
  then show ?thesis
    using checkout_default_branch_result[of env st0 "fst (checkout_default_branch env st0)" st1]
    by simp
qed


text \<open>
  C2 fails on a repository whose default branch is neither \<open>main\<close> nor \<open>master\<close>.
  Every snapshot is checked out, both candidate names fail to resolve after each one
  and once more at the end, and the working tree is left detached on the commit of
  the last snapshot.
\<close>

theorem restore_misses_other_default_branch:
  "(case process_repo scenario_args develop_env scenario_repo develop_clone of
      (res, st) \<Rightarrow> (head st, take 2 (rev (calls st))))
   = (Detached ''0123456789abcdef'', [Checkout ''master'' False, Checkout ''main'' False])"
  by code_simp

text \<open>
  C7 fails in the orchestrator: with a start index of 1 and two repositories in the
  list, \<open>run\<close> processes both, the first included.
\<close>

theorem start_index_ignored:
  "visited (snd (run (scenario_args\<lparr>start_from := 1\<rparr>) [sample_job, other_job]))
   = [''sample'', ''other'']"
  by code_simp

text \<open>
  C10 fails in \<open>_parse_results\<close> on a design result file with a short row: the total
  counts both rows, the only per-category field counts one.
\<close>

theorem parse_results_short_row:
  "(item (parse_results (Some short_row_file) None) ''total_design_smells'',
    category_sum ''design_'' (parse_results (Some short_row_file) None))
   = (2, 1)"
  by code_simp


text \<open>\<open>run\<close> never reads the start index: any value gives the same run.\<close>

lemma designite_step_start_from: "designite_step (a\<lparr>start_from := k\<rparr>) = designite_step a"
  by (simp add: fun_eq_iff designite_step_def has_designite_def)

lemma social_step_start_from: "social_step (a\<lparr>start_from := k\<rparr>) = social_step a"
  by (auto simp: fun_eq_iff social_step_def has_api_def)

lemma process_year_start_from: "process_year (a\<lparr>start_from := k\<rparr>) = process_year a"
  unfolding fun_eq_iff process_year_def designite_step_start_from social_step_start_from
  by simp

lemma year_loop_start_from:
  "year_loop (a\<lparr>start_from := k\<rparr>) env r t0 ns results st = year_loop a env r t0 ns results st"
  by (induction ns arbitrary: results st)
     (simp_all add: process_year_start_from split: prod.splits year_step.splits)

lemma process_repo_start_from:
  "process_repo (a\<lparr>start_from := k\<rparr>) env r st = process_repo a env r st"
  by (simp add: process_repo_def year_loop_start_from split: option.splits)

lemma run_loop_start_from:
  "run_loop (a\<lparr>start_from := k\<rparr>) i js rs = run_loop a i js rs"
  by (induction js arbitrary: i rs)
     (simp_all add: process_repo_start_from Let_def split: sum.splits)

lemma run_ignores_start_from: "run (a\<lparr>start_from := k\<rparr>) jobs = run a jobs"
  by (simp add: run_def run_loop_start_from)

lemma run_loop_visits_all:
  "run_loop a i js rs = (None, rs') \<Longrightarrow>
   visited rs' = visited rs @ map (\<lambda>j. repo_name (job_repo j)) js"
proof (induction js arbitrary: i rs)
  case Nil
  then show ?case by simp
next
  case (Cons j js)
  let ?rs0 = "rs\<lparr>visited := visited rs @ [repo_name (job_repo j)]\<rparr>"
  from Cons.prems obtain rs1 where
    "run_loop a (i + 1) js rs1 = (None, rs')" "visited rs1 = visited ?rs0"
    by (auto simp: Let_def save_results_def split: sum.splits if_splits)
  with Cons.IH[of "i + 1" rs1] show ?case by simp
qed

text \<open>
  In every result of \<open>_parse_results\<close> the three totals are present and the grand
  total is the sum of the other two.
\<close>

lemma item_update: "item (AList.update k v d) k' = (if k' = k then v else item d k')"
  by (simp add: item_def update_conv')

lemma parse_results_grand_total:
  "item (parse_results design_file impl_file) ''total_code_smells'' =
     item (parse_results design_file impl_file) ''total_design_smells''
     + item (parse_results design_file impl_file) ''total_impl_smells''"
  by (simp add: parse_results_def Let_def item_update)

section \<open>The second script\<close>

text \<open>The second script does skip the rows before the start index, and only those.\<close>

lemma main_loop_visited:
  "m_visited (main_loop start w is st) = m_visited st @ filter (\<lambda>i. \<not> int i < start) is"
  by (induction start w "is" st rule: main_loop.induct) (simp_all add: Let_def)

lemma main_loop_rows:
  "length (m_rows (main_loop start w is st)) = length (m_rows st)
   \<and> (\<forall>i. int i < start \<longrightarrow> m_rows (main_loop start w is st) ! i = m_rows st ! i)"
proof (induction start w "is" st rule: main_loop.induct)
  case (1 start w st)
  then show ?case by simp
next
  case (2 start w i rest st)
  then show ?case
    by (auto simp: Let_def nth_list_update)
qed

lemma main_08b_skips_prefix:
  "m_visited (main_08b start w rows) = filter (\<lambda>i. \<not> int i < start) [0..<length rows]
   \<and> (\<forall>i. int i < start \<longrightarrow> m_rows (main_08b start w rows) ! i = rows ! i)"
  using main_loop_rows[of start w "[0..<length rows]"
          "\<lparr>m_rows = rows, m_processed = 0, m_failed = 0, m_visited = [], m_saves = []\<rparr>"]
  by (simp add: main_08b_def Let_def main_loop_visited)

text \<open>
  \<open>run_designite\<close> of the second script keeps both equalities of C10: it counts the
  normalised names, so the keys it stores are distinct and their counts add up to
  the total.
\<close>

lemma update_fresh: "k \<notin> keys d \<Longrightarrow> AList.update k v d = d @ [(k, v)]"
  by (induction d) (auto simp: keys_def)

lemma update_all_fresh:
  "distinct (map fst kvs) \<Longrightarrow> keys d \<inter> keys kvs = {} \<Longrightarrow> update_all d kvs = d @ kvs"
proof (induction kvs arbitrary: d)
  case Nil
  then show ?case by (simp add: update_all_def)
next
  case (Cons kv kvs)
  obtain k v where kv: "kv = (k, v)" by (cases kv)
  from Cons.prems kv have fresh: "k \<notin> keys d" and d: "distinct (map fst kvs)"
    and k: "k \<notin> keys kvs" and dis: "keys d \<inter> keys kvs = {}"
    by (auto simp: keys_def)
  have "update_all d (kv # kvs) = update_all (AList.update k v d) kvs"
    by (simp add: update_all_def kv)
  also have "\<dots> = update_all (d @ [(k, v)]) kvs"
    using fresh by (simp add: update_fresh)
  also have "\<dots> = (d @ [(k, v)]) @ kvs"
    using d k dis by (intro Cons.IH) (auto simp: keys_def)
  finally show ?case by (simp add: kv)
qed

lemma distinct_bump: "distinct (map fst counts) \<Longrightarrow> distinct (map fst (bump counts k))"
  by (simp add: bump_def distinct_update)

lemma distinct_count_rows: "distinct (map fst (count_rows ks))"
proof -
  have "distinct (map fst c) \<Longrightarrow> distinct (map fst (foldl bump c ks))" for c :: "('a \<times> int) list"
    by (induction ks arbitrary: c) (simp_all add: distinct_bump)
  then show ?thesis by (simp add: count_rows_def)
qed

lemma category_sum_append [simp]:
  "category_sum p (xs @ ys) = category_sum p xs + category_sum p ys"
  by (simp add: category_sum_def)

lemma category_sum_all:
  "\<forall>kv\<in>set xs. startswith (fst kv) p \<Longrightarrow> category_sum p xs = sum_list (map snd xs)"
  by (induction xs) (auto simp: category_sum_def)

lemma category_sum_none:
  "\<forall>kv\<in>set xs. \<not> startswith (fst kv) p \<Longrightarrow> category_sum p xs = 0"
  by (induction xs) (auto simp: category_sum_def)

lemma prefixed_facts:
  fixes counts :: "(string \<times> int) list" and p :: string
  assumes "distinct (map fst counts)"
  defines "kvs \<equiv> map (\<lambda>kv. (p @ fst kv, snd kv)) counts"
  shows "distinct (map fst kvs)" and "sum_list (map snd kvs) = sum_list (map snd counts)"
    and "\<forall>kv\<in>set kvs. startswith (fst kv) p"
proof -
  have "map fst kvs = map ((@) p) (map fst counts)"
    by (simp add: kvs_def comp_def)
  with assms(1) show "distinct (map fst kvs)"
    by (simp add: distinct_map inj_on_def del: map_map)
  show "sum_list (map snd kvs) = sum_list (map snd counts)"
    by (simp add: kvs_def comp_def)
  show "\<forall>kv\<in>set kvs. startswith (fst kv) p"
    by (auto simp: kvs_def startswith_def)
qed

lemma map_of_append_None: "map_of xs k = None \<Longrightarrow> map_of (xs @ ys) k = map_of ys k"
  by (simp add: map_add_def)

lemma startswith_Cons: "startswith k (c # p) \<Longrightarrow> \<exists>t. k = c # t"
  by (cases k) (auto simp: startswith_def)

lemma prefixes_apart:
  "startswith k ''design_'' \<Longrightarrow> \<not> startswith k ''impl_'' \<and> \<not> startswith k ''total_''"
  "startswith k ''impl_'' \<Longrightarrow> \<not> startswith k ''design_'' \<and> \<not> startswith k ''total_''"
  by (auto dest!: startswith_Cons)

lemma parse_file_b_result:
  assumes "parse_file_b p f smells = (tot, smells1)"
  shows "\<exists>kvs. distinct (map fst kvs) \<and> (\<forall>kv\<in>set kvs. startswith (fst kv) p)
           \<and> sum_list (map snd kvs) = tot \<and> smells1 = update_all smells kvs"
proof (cases "case f of None \<Rightarrow> None | Some rows \<Rightarrow> normalised rows")
  case None
  with assms have "tot = 0" "smells1 = smells"
    by (auto simp: parse_file_b_def split: option.splits)
  then show ?thesis
    by (intro exI[of _ "[]"]) (simp add: update_all_def)
next
  case (Some ks)
  let ?kvs = "map (\<lambda>kv. (p @ fst kv, snd kv)) (count_rows ks)"
  from Some assms have "tot = sum_list (map snd (count_rows ks))"
    "smells1 = update_all smells ?kvs"
    by (auto simp: parse_file_b_def Let_def split: option.splits)
  with prefixed_facts[OF distinct_count_rows, of p ks] show ?thesis
    by (intro exI[of _ ?kvs]) simp
qed

lemma run_designite_totals:
  assumes "smells = run_designite (Exited rc design_file impl_file)"
  shows "item smells ''total_code_smells'' =
           item smells ''total_design_smells'' + item smells ''total_impl_smells''
       \<and> item smells ''total_design_smells'' = category_sum ''design_'' smells
       \<and> item smells ''total_impl_smells'' = category_sum ''impl_'' smells"
proof -
  obtain dt s1 where d: "parse_file_b ''design_'' design_file [] = (dt, s1)"
    by (cases "parse_file_b ''design_'' design_file []")
  obtain it s2 where i: "parse_file_b ''impl_'' impl_file s1 = (it, s2)"
    by (cases "parse_file_b ''impl_'' impl_file s1")
  from parse_file_b_result[OF d] obtain kd where kd:
    "distinct (map fst kd)" "\<forall>kv\<in>set kd. startswith (fst kv) ''design_''"
    "sum_list (map snd kd) = dt" "s1 = update_all [] kd"
    by blast
  from parse_file_b_result[OF i] obtain ki where ki:
    "distinct (map fst ki)" "\<forall>kv\<in>set ki. startswith (fst kv) ''impl_''"
    "sum_list (map snd ki) = it" "s2 = update_all s1 ki"
    by blast
  let ?tot = "[(''total_design_smells'', dt), (''total_impl_smells'', it),
               (''total_code_smells'', dt + it)]"
  have s1: "s1 = kd"
    using kd(1,4) update_all_fresh[of kd "[]"] by (simp add: keys_def)
  have dis: "keys kd \<inter> keys ki = {}"
    using kd(2) ki(2) prefixes_apart by (fastforce simp: keys_def)
  have s2: "s2 = kd @ ki"
    using ki(1,4) s1 dis update_all_fresh[of ki kd] by simp
  have nt: "\<forall>kv\<in>set (kd @ ki). \<not> startswith (fst kv) ''total_''"
    using kd(2) ki(2) prefixes_apart by fastforce
  have tk: "\<forall>k\<in>keys ?tot. startswith k ''total_''"
    by (simp add: keys_def startswith_def)
  have dis2: "keys (kd @ ki) \<inter> keys ?tot = {}"
  proof (rule ccontr)
    assume "keys (kd @ ki) \<inter> keys ?tot \<noteq> {}"
    then obtain k where k: "k \<in> keys (kd @ ki)" "k \<in> keys ?tot" by blast
    from k(2) tk have "startswith k ''total_''" by blast
    moreover from k(1) nt have "\<not> startswith k ''total_''" by (auto simp: keys_def)
    ultimately show False by simp
  qed
  have sm: "smells = kd @ ki @ ?tot"
    using assms d i s2 dis2 update_all_fresh[of ?tot "kd @ ki"]
    by (simp add: run_designite_def)
  have nd: "\<forall>kv\<in>set ki. \<not> startswith (fst kv) ''design_''"
           "\<forall>kv\<in>set kd. \<not> startswith (fst kv) ''impl_''"
    using kd(2) ki(2) prefixes_apart by fastforce+
  have look: "map_of (kd @ ki) k = None" if "startswith k ''total_''" for k
  proof -
    from nt that have "k \<notin> fst ` set (kd @ ki)" by force
    then show ?thesis by (simp add: map_of_eq_None_iff del: map_of_append set_append)
  qed
  have sm': "smells = (kd @ ki) @ ?tot"
    using sm by simp
  have tot: "map_of smells k = map_of ?tot k" if "startswith k ''total_''" for k
    unfolding sm' using look[OF that] by (rule map_of_append_None)
  have items: "item smells ''total_design_smells'' = dt" "item smells ''total_impl_smells'' = it"
    "item smells ''total_code_smells'' = dt + it"
    using tot[of "''total_design_smells''"] tot[of "''total_impl_smells''"]
      tot[of "''total_code_smells''"]
    by (simp_all add: item_def startswith_def)
  have cd: "category_sum ''design_'' smells = dt"
    using category_sum_all[OF kd(2)] category_sum_none[OF nd(1)] kd(3)
    by (simp add: sm category_sum_def[of _ "[_, _, _]"] startswith_def)
  have ci: "category_sum ''impl_'' smells = it"
    using category_sum_all[OF ki(2)] category_sum_none[OF nd(2)] ki(3)
    by (simp add: sm category_sum_def[of _ "[_, _, _]"] startswith_def)
  from items cd ci show ?thesis by simp
qed

end
